theory Spec2Isabelle
  imports Complex_Main "HOL-Library.Sublist"
begin

section \<open>Data: parsed CSV frames\<close>

text \<open>
  \<^verbatim>\<open>rtmap.py\<close> reads each CSV file with \<^verbatim>\<open>pandas.read_csv\<close> and works on the
  resulting DataFrame. A cell of a frame is a missing value (pandas' NaN), a number or
  a text. IEEE doubles are modelled by exact reals: the comparisons of the program are
  exact on doubles, only the rounding of sums and quotients is idealised.
\<close>

datatype cell = NaN | Num real | Str string

text \<open>A row is the association of column names with cells; a frame is the list of
  its column names and its rows in file order.\<close>

type_synonym row = "(string \<times> cell) list"

record frame =
  columns :: "string list"
  rows :: "row list"

text \<open>The exceptions of a run. What \<^verbatim>\<open>read_csv\<close> raises on a file that cannot be
  opened or parsed is kept apart, so that a file system cannot hand out the
  exceptions of the program's own code.\<close>

datatype read_error = FileNotFoundError | EmptyDataError | ParserError | UnicodeDecodeError

datatype error =
    ReadError read_error
  | KeyError
  | AttributeError
  | TypeError
  | ValueError
  | IndexError
  | SystemExit nat

text \<open>The file system as \<^verbatim>\<open>read_csv\<close> sees it: every path either fails to load or
  gives a frame. The files do not change during a run.\<close>

type_synonym files = "string \<Rightarrow> read_error + frame"

definition cell_of :: "row \<Rightarrow> string \<Rightarrow> cell" where
  "cell_of r c = (case map_of r c of None \<Rightarrow> NaN | Some v \<Rightarrow> v)"

fun is_Str :: "cell \<Rightarrow> bool" where
  "is_Str (Str s) = True"
| "is_Str NaN = False"
| "is_Str (Num x) = False"

fun is_NaN :: "cell \<Rightarrow> bool" where
  "is_NaN NaN = True"
| "is_NaN (Num x) = False"
| "is_NaN (Str s) = False"

section \<open>Colour mapping (lines 32 to 43)\<close>

text \<open>
  \<^verbatim>\<open>mcolors.LinearSegmentedColormap.from_list("", ["red", "yellow", "green"])\<close> builds a
  lookup table of 256 colours: entry \<open>i\<close> interpolates linearly between the stops
  red \<open>(1, 0, 0)\<close> at position 0, yellow \<open>(1, 1, 0)\<close> at position 127.5 and green
  \<open>(0, 128/255, 0)\<close> (matplotlib's named colour \<^verbatim>\<open>green\<close>, \<^verbatim>\<open>#008000\<close>) at position 255.
\<close>

definition lut_channel :: "real \<Rightarrow> real \<Rightarrow> real \<Rightarrow> nat \<Rightarrow> real" where
  "lut_channel a b c i =
     (if 2 * i \<le> 255 then a + (real i / (255 / 2)) * (b - a)
      else b + ((real i - 255 / 2) / (255 / 2)) * (c - b))"

definition lut :: "nat \<Rightarrow> real \<times> real \<times> real" where
  "lut i = (lut_channel 1 1 0 i, lut_channel 0 1 (128 / 255) i, lut_channel 0 0 0 i)"

text \<open>Calling the colormap on a float \<open>x\<close> scales it by 256, truncates, and clamps:
  below 0 the first entry, from 256 on (and at exactly 1.0) the last entry.\<close>

definition cmap :: "real \<Rightarrow> real \<times> real \<times> real" where
  "cmap x =
     (let xa = x * 256 in
      if xa < 0 then lut 0
      else if xa \<ge> 256 then lut 255
      else lut (nat \<lfloor>xa\<rfloor>))"

text \<open>Python's \<^verbatim>\<open>round\<close>: to the nearest integer, ties to the even one.\<close>

definition py_round :: "real \<Rightarrow> int" where
  "py_round x =
     (let f = \<lfloor>x\<rfloor>; d = x - of_int f in
      if d < 1 / 2 then f
      else if d > 1 / 2 then f + 1
      else if even f then f else f + 1)"

definition hex_digit :: "nat \<Rightarrow> char" where
  "hex_digit n = ''0123456789abcdef'' ! (n mod 16)"

fun to_hex :: "nat \<Rightarrow> string" where
  "to_hex n = (if n < 16 then [hex_digit n] else to_hex (n div 16) @ [hex_digit n])"

declare to_hex.simps [simp del]

text \<open>\<^verbatim>\<open>format(n, "02x")\<close> for a non-negative \<open>n\<close>: lower-case hexadecimal, padded with
  zeros to two characters.\<close>

definition format_02x :: "nat \<Rightarrow> string" where
  "format_02x n = (let s = to_hex n in replicate (2 - length s) (CHR ''0'') @ s)"

text \<open>\<^verbatim>\<open>mcolors.rgb2hex\<close>: the three channels, each scaled to 0..255 and rounded.\<close>

definition rgb2hex :: "real \<times> real \<times> real \<Rightarrow> string" where
  "rgb2hex c =
     (case c of (r, g, b) \<Rightarrow>
        ''#'' @ format_02x (nat (py_round (r * 255)))
             @ format_02x (nat (py_round (g * 255)))
             @ format_02x (nat (py_round (b * 255))))"

text \<open>Line 35: the normalisation of an SNR value to the range set by -21 and 12.\<close>

definition normalize_snr :: "real \<Rightarrow> real" where
  "normalize_snr x = (x - (-21)) / (12 - (-21))"

text \<open>Lines 40 to 43: the colour of a marker from the SNR of its row.\<close>

definition map_color :: "real \<Rightarrow> string" where
  "map_color snr =
     (if snr > 15 \<or> snr \<le> -25 then ''#808080''
      else rgb2hex (cmap (normalize_snr snr)))"


section \<open>Row filtering (lines 16 to 21)\<close>

text \<open>
  \<^verbatim>\<open>df['payload'].str.contains(r'seq \d+', na=False)\<close> searches each payload text for
  the regular expression: the four characters \<^verbatim>\<open>seq \<close> followed by at least one digit,
  anywhere in the text. A first digit after \<^verbatim>\<open>seq \<close> decides the search. Characters are
  bytes here, so the digits are the ASCII ones.
\<close>

definition is_digit :: "char \<Rightarrow> bool" where
  "is_digit c = (c \<in> set ''0123456789'')"

definition match_seq :: "string \<Rightarrow> bool" where
  "match_seq s = (take 4 s = ''seq '' \<and> (case drop 4 s of [] \<Rightarrow> False | d # _ \<Rightarrow> is_digit d))"

fun contains_seq :: "string \<Rightarrow> bool" where
  "contains_seq [] = False"
| "contains_seq (x # xs) = (match_seq (x # xs) \<or> contains_seq xs)"

text \<open>A cell that is not a text gives no match (\<^verbatim>\<open>na=False\<close>).\<close>

fun str_contains :: "cell \<Rightarrow> bool" where
  "str_contains (Str s) = contains_seq s"
| "str_contains NaN = False"
| "str_contains (Num x) = False"

definition required :: "string list" where
  "required = [''rx lat'', ''rx long'', ''rx snr'', ''sender name'', ''rx elevation'']"

text \<open>\<^verbatim>\<open>df[[...]]\<close>: the row cut down to the listed columns.\<close>

definition project :: "string list \<Rightarrow> row \<Rightarrow> row" where
  "project cs r = map (\<lambda>c. (c, cell_of r c)) cs"

text \<open>\<^verbatim>\<open>isinstance(x, (int, float))\<close>: a number or NaN (a float), never a text.\<close>

fun isinstance_num :: "cell \<Rightarrow> bool" where
  "isinstance_num (Num x) = True"
| "isinstance_num NaN = True"
| "isinstance_num (Str s) = False"

text \<open>One entry of \<^verbatim>\<open>Series.between(lo, hi)\<close> on a column without texts.\<close>

fun between :: "cell \<Rightarrow> real \<Rightarrow> real \<Rightarrow> bool" where
  "between (Num x) lo hi = (lo \<le> x \<and> x \<le> hi)"
| "between NaN lo hi = False"
| "between (Str s) lo hi = False"

text \<open>
  The three filtering statements. The exceptions, in the order the statements raise them:
  \<^item> line 16: \<^verbatim>\<open>df['payload']\<close> raises KeyError when the frame has no such column, and
    the \<^verbatim>\<open>.str\<close> accessor raises AttributeError on a column that holds rows but no
    text (pandas gives such a column a numeric type);
  \<^item> line 17: selecting the five columns raises KeyError when one is not in the frame;
  \<^item> lines 18 to 21: all four masks are computed before they are combined, and
    \<^verbatim>\<open>between\<close> compares every remaining entry with the bounds: comparing a text
    with a number raises TypeError.
\<close>

definition row_filter :: "frame \<Rightarrow> error + row list" where
  "row_filter df =
     (if ''payload'' \<notin> set (columns df) then Inl KeyError
      else if rows df \<noteq> [] \<and> (\<forall>r \<in> set (rows df). \<not> is_Str (cell_of r ''payload''))
        then Inl AttributeError
      else if \<not> set required \<subseteq> set (columns df) then Inl KeyError
      else
        let df1 = filter (\<lambda>r. str_contains (cell_of r ''payload'')) (rows df);
            df2 = filter (\<lambda>r. \<forall>c \<in> set required. \<not> is_NaN (cell_of r c))
                    (map (project required) df1)
        in if \<exists>r \<in> set df2. is_Str (cell_of r ''rx lat'') \<or> is_Str (cell_of r ''rx long'')
           then Inl TypeError
           else Inr (filter (\<lambda>r. isinstance_num (cell_of r ''rx lat'')
                                 \<and> isinstance_num (cell_of r ''rx long'')
                                 \<and> between (cell_of r ''rx lat'') (-90) 90
                                 \<and> between (cell_of r ''rx long'') (-180) 180) df2))"

section \<open>Point layers (lines 11 to 62)\<close>

record marker =
  location :: "cell \<times> cell"
  radius :: nat
  color :: string
  fill :: bool
  fill_color :: string
  fill_opacity :: real
  popup :: string

record layer =
  layer_name :: string
  markers :: "marker list"

text \<open>\<^verbatim>\<open>os.path.basename\<close>: what follows the last slash of the path.\<close>

definition basename :: "string \<Rightarrow> string" where
  "basename p = rev (takeWhile (\<lambda>c. c \<noteq> CHR ''/'') (rev p))"

text \<open>
  What an f-string writes for a cell. The text Python prints for a number (the shortest
  decimal that reads back as the same double) is not modelled: it is the parameter \<open>S\<close>
  of every function that builds a popup.
\<close>

fun cell_str :: "(real \<Rightarrow> string) \<Rightarrow> cell \<Rightarrow> string" where
  "cell_str S (Num x) = S x"
| "cell_str S (Str s) = s"
| "cell_str S NaN = ''nan''"

text \<open>Lines 45 to 51.\<close>

definition popup_info :: "(real \<Rightarrow> string) \<Rightarrow> string \<Rightarrow> row \<Rightarrow> string" where
  "popup_info S csv_file r =
     basename csv_file @ ''<br>''
     @ ''SNR: '' @ cell_str S (cell_of r ''rx snr'') @ ''<br>''
     @ ''Elevation: '' @ cell_str S (cell_of r ''rx elevation'') @ ''<br>''
     @ ''Latitude: '' @ cell_str S (cell_of r ''rx lat'') @ ''<br>''
     @ ''Longitude: '' @ cell_str S (cell_of r ''rx long'')"

text \<open>
  Lines 35 and 40 to 43 on the SNR cell of a row. Subtracting from a text (line 35) and
  comparing a text with a number (line 40) raise TypeError. NaN cannot reach this point
  (line 17 dropped it); Python would compare it false twice and the colormap would give
  its colour for bad values, transparent black.
\<close>

fun row_color :: "cell \<Rightarrow> error + string" where
  "row_color (Num x) = Inr (map_color x)"
| "row_color (Str s) = Inl TypeError"
| "row_color NaN = Inr ''#000000''"

text \<open>Lines 38 to 60: one circle marker for a row.\<close>

definition circle_marker :: "(real \<Rightarrow> string) \<Rightarrow> string \<Rightarrow> row \<Rightarrow> error + marker" where
  "circle_marker S csv_file r =
     (case row_color (cell_of r ''rx snr'') of
        Inl e \<Rightarrow> Inl e
      | Inr c \<Rightarrow> Inr \<lparr>location = (cell_of r ''rx lat'', cell_of r ''rx long''),
                      radius = 7, color = c, fill = True, fill_color = c,
                      fill_opacity = 7 / 10, popup = popup_info S csv_file r\<rparr>)"

text \<open>The loop over the filtered rows; the first exception ends it.\<close>

fun add_markers :: "(real \<Rightarrow> string) \<Rightarrow> string \<Rightarrow> row list \<Rightarrow> error + marker list" where
  "add_markers S csv_file [] = Inr []"
| "add_markers S csv_file (r # rs) =
     (case circle_marker S csv_file r of
        Inl e \<Rightarrow> Inl e
      | Inr m \<Rightarrow> (case add_markers S csv_file rs of
                   Inl e \<Rightarrow> Inl e
                 | Inr ms \<Rightarrow> Inr (m # ms)))"

text \<open>
  \<^verbatim>\<open>create_point_layer\<close>. The result is the list of lines printed and either the
  exception raised or the value returned: \<open>None\<close> or the layer.
\<close>

definition create_point_layer ::
    "(real \<Rightarrow> string) \<Rightarrow> files \<Rightarrow> string \<Rightarrow> string list \<times> (error + layer option)" where
  "create_point_layer S fs csv_file =
     (case fs csv_file of
        Inl e \<Rightarrow> ([], Inl (ReadError e))
      | Inr df \<Rightarrow>
          (case row_filter df of
             Inl e \<Rightarrow> ([], Inl e)
           | Inr df_filtered \<Rightarrow>
               if df_filtered = []
               then ([''No valid data found in '' @ csv_file
                        @ ''. Skipping point layer creation.''], Inr None)
               else (case add_markers S csv_file df_filtered of
                       Inl e \<Rightarrow> ([], Inl e)
                     | Inr ms \<Rightarrow>
                         ([], Inr (Some \<lparr>layer_name = basename csv_file, markers = ms\<rparr>)))))"

section \<open>The map (lines 64 to 154)\<close>

text \<open>\<^verbatim>\<open>df[c]\<close>: the column as a series, KeyError when the frame has no such column.\<close>

definition get_column :: "frame \<Rightarrow> string \<Rightarrow> error + cell list" where
  "get_column df c =
     (if c \<in> set (columns df) then Inr (map (\<lambda>r. cell_of r c) (rows df)) else Inl KeyError)"

fun nums_of :: "cell list \<Rightarrow> real list" where
  "nums_of [] = []"
| "nums_of (Num x # cs) = x # nums_of cs"
| "nums_of (NaN # cs) = nums_of cs"
| "nums_of (Str s # cs) = nums_of cs"

text \<open>
  \<^verbatim>\<open>Series.mean()\<close>: the missing values are skipped, and a series with no number has the
  mean NaN. A text in the series cannot be summed with numbers: TypeError.
\<close>

definition series_mean :: "cell list \<Rightarrow> error + cell" where
  "series_mean xs =
     (if \<exists>c \<in> set xs. is_Str c then Inl TypeError
      else if nums_of xs = [] then Inr NaN
      else Inr (Num (sum_list (nums_of xs) / real (length (nums_of xs)))))"

text \<open>Lines 72 to 74: every file is read again, in order; the first failure ends the loop.\<close>

fun read_all :: "files \<Rightarrow> string list \<Rightarrow> error + frame list" where
  "read_all fs [] = Inr []"
| "read_all fs (f # rest) =
     (case fs f of
        Inl e \<Rightarrow> Inl (ReadError e)
      | Inr df \<Rightarrow> (case read_all fs rest of
                    Inl e \<Rightarrow> Inl e
                  | Inr dfs \<Rightarrow> Inr (df # dfs)))"

text \<open>A row seen through the columns of its own frame only.\<close>

definition restrict :: "string list \<Rightarrow> row \<Rightarrow> row" where
  "restrict cs r = filter (\<lambda>kv. fst kv \<in> set cs) r"

text \<open>
  \<^verbatim>\<open>pd.concat(df_list, ignore_index=True)\<close>: the rows of all frames in list order under
  the union of the columns; a row has NaN in a column its own frame lacks. An empty
  list raises ValueError.
\<close>

definition pd_concat :: "frame list \<Rightarrow> error + frame" where
  "pd_concat dfs =
     (if dfs = [] then Inl ValueError
      else Inr \<lparr>columns = remdups (concat (map columns dfs)),
                rows = concat (map (\<lambda>df. map (restrict (columns df)) (rows df)) dfs)\<rparr>)"

text \<open>Line 78: one heat entry per row of the merged frame. Reading a column the merged
  frame lacks raises KeyError at the first row.\<close>

definition heat_row :: "row \<Rightarrow> cell list" where
  "heat_row r = [cell_of r ''rx lat'', cell_of r ''rx long'', cell_of r ''rx snr'']"

definition heat_data :: "frame \<Rightarrow> error + cell list list" where
  "heat_data merged_df =
     (if rows merged_df = [] then Inr []
      else if \<not> set [''rx lat'', ''rx long'', ''rx snr''] \<subseteq> set (columns merged_df)
        then Inl KeyError
      else Inr (map heat_row (rows merged_df)))"

text \<open>Lines 148 to 151: the point layers, in file order; a file whose layer is \<open>None\<close>
  adds nothing. The first exception ends the loop, after the lines printed so far.\<close>

fun csv_layers ::
    "(real \<Rightarrow> string) \<Rightarrow> files \<Rightarrow> string list \<Rightarrow> string list \<times> (error + layer list)" where
  "csv_layers S fs [] = ([], Inr [])"
| "csv_layers S fs (csv_file # rest) =
     (case create_point_layer S fs csv_file of
        (out, Inl e) \<Rightarrow> (out, Inl e)
      | (out, Inr lay) \<Rightarrow>
          (case csv_layers S fs rest of
             (out', Inl e) \<Rightarrow> (out @ out', Inl e)
           | (out', Inr ls) \<Rightarrow>
               (out @ out', Inr ((case lay of None \<Rightarrow> [] | Some l \<Rightarrow> [l]) @ ls))))"

text \<open>
  What the program hands to folium: the centre of the map, the heat entries and the
  point layers, and the path the map is saved under. The tile layers and the controls
  are the same in every run and are left out. folium is taken to accept what it is
  handed: an exception raised inside folium has no branch here.
\<close>

record folium_map =
  map_location :: "cell \<times> cell"
  heat :: "cell list list"
  point_layers :: "layer list"
  saved_as :: string

definition create_map_with_layers ::
    "(real \<Rightarrow> string) \<Rightarrow> files \<Rightarrow> string list \<Rightarrow> string
       \<Rightarrow> string list \<times> (error + folium_map)" where
  "create_map_with_layers S fs csv_files output_file =
     (case csv_files of
        [] \<Rightarrow> ([], Inl IndexError)
      | first # _ \<Rightarrow>
     (case fs first of
        Inl e \<Rightarrow> ([], Inl (ReadError e))
      | Inr initial_df \<Rightarrow>
     (case get_column initial_df ''rx lat'' of
        Inl e \<Rightarrow> ([], Inl e)
      | Inr lats \<Rightarrow>
     (case series_mean lats of
        Inl e \<Rightarrow> ([], Inl e)
      | Inr lat_mean \<Rightarrow>
     (case get_column initial_df ''rx long'' of
        Inl e \<Rightarrow> ([], Inl e)
      | Inr longs \<Rightarrow>
     (case series_mean longs of
        Inl e \<Rightarrow> ([], Inl e)
      | Inr long_mean \<Rightarrow>
     (case read_all fs csv_files of
        Inl e \<Rightarrow> ([], Inl e)
      | Inr df_list \<Rightarrow>
     (case pd_concat df_list of
        Inl e \<Rightarrow> ([], Inl e)
      | Inr merged_df \<Rightarrow>
     (case heat_data merged_df of
        Inl e \<Rightarrow> ([], Inl e)
      | Inr heat_entries \<Rightarrow>
     (case csv_layers S fs csv_files of
        (out, Inl e) \<Rightarrow> (out, Inl e)
      | (out, Inr ls) \<Rightarrow>
          (out, Inr \<lparr>map_location = (lat_mean, long_mean), heat = heat_entries,
                      point_layers = ls, saved_as = output_file\<rparr>)))))))))))"

section \<open>The script (lines 157 to 167)\<close>

text \<open>\<open>csv_files\<close> is what \<^verbatim>\<open>glob\<close> found in the directory of the script.\<close>

definition main ::
    "(real \<Rightarrow> string) \<Rightarrow> files \<Rightarrow> string list \<Rightarrow> string list \<times> (error + folium_map)" where
  "main S fs csv_files =
     (if csv_files = []
      then ([''No CSV files found in the directory. Exiting.''], Inl (SystemExit 1))
      else (case create_map_with_layers S fs csv_files ''rangetest-map.html'' of
              (out, Inl e) \<Rightarrow> (out, Inl e)
            | (out, Inr m) \<Rightarrow>
                (out @ [''Map with layers has been generated and can be viewed in ''
                         @ [CHR 0x27] @ ''rangetest-map.html'' @ [CHR 0x27] @ ''.''],
                 Inr m)))"

section \<open>Notions of the specification\<close>







text \<open>
  The acceptance rule of the specification for one raw record: the payload text holds
  \<^verbatim>\<open>seq\<close>, a blank and digits, none of the five required fields is missing, and latitude
  and longitude are numbers within their ranges.
\<close>

definition valid_row :: "row \<Rightarrow> bool" where
  "valid_row r =
     (str_contains (cell_of r ''payload'')
      \<and> (\<forall>c \<in> set required. \<not> is_NaN (cell_of r c))
      \<and> between (cell_of r ''rx lat'') (-90) 90
      \<and> between (cell_of r ''rx long'') (-180) 180)"

text \<open>The heat entries of one frame as read: latitude, longitude and SNR of every row,
  valid or not, a column the frame lacks read as NaN.\<close>

definition frame_heat :: "frame \<Rightarrow> cell list list" where
  "frame_heat df = map (\<lambda>r. heat_row (restrict (columns df) r)) (rows df)"

text \<open>The mean of the numbers of a column, NaN when it has none.\<close>

definition mean_skipna :: "cell list \<Rightarrow> cell" where
  "mean_skipna xs =
     (if nums_of xs = [] then NaN
      else Num (sum_list (nums_of xs) / real (length (nums_of xs))))"

text \<open>The exception that ends the script with an exit status.\<close>

fun is_exit :: "error \<Rightarrow> bool" where
  "is_exit (SystemExit n) = True"
| "is_exit e = False"

section \<open>Example inputs\<close>

text \<open>
  Concrete files for the examples below. \<open>ex_S\<close> stands for Python's text of the numbers
  that occur in them. \<^verbatim>\<open>log1.csv\<close> holds the sample of the specification's popup
  example and one row whose payload is no heartbeat; \<^verbatim>\<open>empty.csv\<close> holds one row whose
  latitude is out of range; \<^verbatim>\<open>text.csv\<close> holds one row whose latitude is a text;
  \<^verbatim>\<open>nopayload.csv\<close> has no payload column; every other path cannot be opened.
\<close>

definition ex_S :: "real \<Rightarrow> string" where
  "ex_S x = (if x = 45 then ''45.0'' else if x = -122 then ''-122.0''
             else if x = 7 / 2 then ''3.5'' else if x = 120 then ''120'' else ''0.0'')"

definition ex_columns :: "string list" where
  "ex_columns = [''payload'', ''rx lat'', ''rx long'', ''rx snr'', ''sender name'', ''rx elevation'']"

definition ex_row :: "cell \<Rightarrow> cell \<Rightarrow> cell \<Rightarrow> cell \<Rightarrow> row" where
  "ex_row p la lo s =
     [(''payload'', p), (''rx lat'', la), (''rx long'', lo), (''rx snr'', s),
      (''sender name'', Str ''node1''), (''rx elevation'', Num 120)]"

definition ex_log1 :: frame where
  "ex_log1 = \<lparr>columns = ex_columns,
              rows = [ex_row (Str ''seq 17'') (Num 45) (Num (-122)) (Num (7 / 2)),
                      ex_row (Str ''hello'') (Num 47) (Num (-120)) (Num 1)]\<rparr>"

definition ex_empty :: frame where
  "ex_empty = \<lparr>columns = ex_columns,
               rows = [ex_row (Str ''seq 3'') (Num 95) (Num (-122)) (Num 2)]\<rparr>"

definition ex_text :: frame where
  "ex_text = \<lparr>columns = ex_columns,
              rows = [ex_row (Str ''seq 1'') (Str ''unknown'') (Num (-122)) (Num 2)]\<rparr>"

definition ex_nopayload :: frame where
  "ex_nopayload = \<lparr>columns = tl ex_columns,
                   rows = [tl (ex_row NaN (Num 45) (Num (-122)) (Num 2))]\<rparr>"

definition ex_fs :: files where
  "ex_fs path =
     (if path = ''log1.csv'' then Inr ex_log1
      else if path = ''empty.csv'' then Inr ex_empty
      else if path = ''text.csv'' then Inr ex_text
      else if path = ''nopayload.csv'' then Inr ex_nopayload
      else Inl FileNotFoundError)"

section \<open>The colour mapper\<close>

lemma cmap_blue: "snd (snd (cmap x)) = 0"
  by (simp add: cmap_def Let_def lut_def lut_channel_def)

lemma format_02x_zero: "format_02x 0 = ''00''"
  by (simp add: format_02x_def to_hex.simps hex_digit_def)

lemma py_round_zero: "py_round 0 = 0"
  by (simp add: py_round_def)

text \<open>A colour without blue is never the grey of the out-of-range values: its text
  ends in \<^verbatim>\<open>00\<close>.\<close>

lemma rgb2hex_blue_zero:
  assumes "snd (snd c) = 0"
  shows "rgb2hex c \<noteq> ''#808080''"
proof
  assume eq: "rgb2hex c = ''#808080''"
  obtain r g b where c: "c = (r, g, b)" by (cases c) auto
  with assms have b: "b = 0" by simp
  let ?p = "format_02x (nat (py_round (r * 255))) @ format_02x (nat (py_round (g * 255)))"
  from eq c b have "?p @ ''00'' = ''8080'' @ ''80''"
    by (simp add: rgb2hex_def py_round_zero format_02x_zero)
  then have "''00'' = ''80''"
    by (subst (asm) append_eq_append_conv) simp_all
  then show False by simp
qed





text \<open>
  C5. The colour of an SNR value is defined for every value, with no error branch. An
  SNR above 15 or at most -25 gets the fixed grey \<^verbatim>\<open>#808080\<close>, so 16 and -30 do. An SNR
  above -25 and at most 15 takes the other branch: its colour is the hex text of the
  colormap at the normalised value, which is never that grey.
\<close>

theorem map_color_sentinel:
  "(snr > 15 \<or> snr \<le> -25 \<longrightarrow> map_color snr = ''#808080'')
   \<and> map_color 16 = ''#808080'' \<and> map_color (-30) = ''#808080''
   \<and> (-25 < snr \<and> snr \<le> 15 \<longrightarrow>
        map_color snr = rgb2hex (cmap (normalize_snr snr)) \<and> map_color snr \<noteq> ''#808080'')"
proof -
  have "map_color snr \<noteq> ''#808080''" if "-25 < snr" "snr \<le> 15"
    using that rgb2hex_blue_zero [OF cmap_blue] by (simp add: map_color_def)
  then show ?thesis by (simp add: map_color_def)
qed

theorem map_color_sentinel_witness:
  "map_color 20 = ''#808080'' \<and> map_color (-25) = ''#808080''
   \<and> map_color 15 \<noteq> ''#808080'' \<and> map_color 0 = rgb2hex (cmap (normalize_snr 0))"
proof -
  have "(20 :: real) > 15" "(-25 :: real) \<le> -25" by simp_all
  moreover have "(-25 :: real) < 15 \<and> (15 :: real) \<le> 15" by simp
  moreover have "(-25 :: real) < 0 \<and> (0 :: real) \<le> 15" by simp
  ultimately show ?thesis
    using map_color_sentinel [of 20] map_color_sentinel [of "-25"]
      map_color_sentinel [of 15] map_color_sentinel [of 0]
    by blast
qed



section \<open>Row filtering and point layers\<close>

lemma cell_of_project: "c \<in> set cs \<Longrightarrow> cell_of (project cs r) c = cell_of r c"
proof -
  assume "c \<in> set cs"
  then have "map_of (map (\<lambda>c. (c, cell_of r c)) cs) c = Some (cell_of r c)"
    by (induction cs) auto
  then show ?thesis by (simp add: cell_of_def project_def)
qed

lemma between_Num: "between c lo hi \<longleftrightarrow> (\<exists>x. c = Num x \<and> lo \<le> x \<and> x \<le> hi)"
  by (cases c) auto

lemma between_not_Str: "between c lo hi \<Longrightarrow> \<not> is_Str c \<and> isinstance_num c"
  by (cases c) auto

lemma in_required:
  "''rx lat'' \<in> set required" "''rx long'' \<in> set required" "''rx snr'' \<in> set required"
  "''rx elevation'' \<in> set required" "''sender name'' \<in> set required"
  by (simp_all add: required_def)

lemma match_seq_iff: "match_seq s \<longleftrightarrow> (\<exists>d rest. s = ''seq '' @ d # rest \<and> is_digit d)"
proof
  assume m: "match_seq s"
  then obtain d rest where dr: "drop 4 s = d # rest" "is_digit d"
    by (auto simp: match_seq_def split: list.splits)
  have "s = take 4 s @ drop 4 s" by simp
  with m dr have "s = ''seq '' @ d # rest" by (simp add: match_seq_def)
  with dr show "\<exists>d rest. s = ''seq '' @ d # rest \<and> is_digit d" by blast
next
  assume "\<exists>d rest. s = ''seq '' @ d # rest \<and> is_digit d"
  then show "match_seq s" by (auto simp: match_seq_def)
qed

lemma contains_seq_suffix: "contains_seq s \<longleftrightarrow> (\<exists>pre suf. s = pre @ suf \<and> match_seq suf)"
proof (induction s)
  case Nil
  then show ?case by (simp add: match_seq_def)
next
  case (Cons x xs)
  show ?case
  proof
    assume "contains_seq (x # xs)"
    then consider "match_seq (x # xs)" | "contains_seq xs" by auto
    then show "\<exists>pre suf. x # xs = pre @ suf \<and> match_seq suf"
    proof cases
      case 1
      then have "x # xs = [] @ (x # xs) \<and> match_seq (x # xs)" by simp
      then show ?thesis by blast
    next
      case 2
      with Cons.IH obtain pre suf where "xs = pre @ suf" "match_seq suf" by blast
      then have "x # xs = (x # pre) @ suf \<and> match_seq suf" by simp
      then show ?thesis by blast
    qed
  next
    assume "\<exists>pre suf. x # xs = pre @ suf \<and> match_seq suf"
    then obtain pre suf where ps: "x # xs = pre @ suf" "match_seq suf" by blast
    show "contains_seq (x # xs)"
    proof (cases pre)
      case Nil
      with ps have "match_seq (x # xs)" by simp
      then show ?thesis by simp
    next
      case (Cons p pre')
      with ps have "xs = pre' @ suf" by simp
      with ps(2) Cons.IH have "contains_seq xs" by blast
      then show ?thesis by simp
    qed
  qed
qed

lemma contains_seq_iff:
  "contains_seq s \<longleftrightarrow>
     (\<exists>pre ds post. s = pre @ ''seq '' @ ds @ post \<and> ds \<noteq> [] \<and> (\<forall>d \<in> set ds. is_digit d))"
proof
  assume "contains_seq s"
  then obtain pre d rest where "s = pre @ ''seq '' @ d # rest" "is_digit d"
    unfolding contains_seq_suffix match_seq_iff by blast
  then have "s = pre @ ''seq '' @ [d] @ rest \<and> [d] \<noteq> [] \<and> (\<forall>c \<in> set [d]. is_digit c)"
    by simp
  then show "\<exists>pre ds post. s = pre @ ''seq '' @ ds @ post \<and> ds \<noteq> [] \<and> (\<forall>d \<in> set ds. is_digit d)"
    by blast
next
  assume "\<exists>pre ds post. s = pre @ ''seq '' @ ds @ post \<and> ds \<noteq> [] \<and> (\<forall>d \<in> set ds. is_digit d)"
  then obtain pre ds post where h: "s = pre @ ''seq '' @ ds @ post" "ds \<noteq> []" "\<forall>d \<in> set ds. is_digit d"
    by blast
  then obtain d ds' where ds: "ds = d # ds'" by (cases ds) auto
  with h have "s = pre @ (''seq '' @ d # (ds' @ post))" "is_digit d" by simp_all
  then have "\<exists>suf. s = pre @ suf \<and> match_seq suf"
    unfolding match_seq_iff by blast
  then show "contains_seq s" unfolding contains_seq_suffix by blast
qed

lemma valid_row_project:
  "valid_row r \<longleftrightarrow>
     str_contains (cell_of r ''payload'')
     \<and> (\<forall>c \<in> set required. \<not> is_NaN (cell_of (project required r) c))
     \<and> between (cell_of (project required r) ''rx lat'') (-90) 90
     \<and> between (cell_of (project required r) ''rx long'') (-180) 180"
  by (simp add: valid_row_def cell_of_project in_required)

lemma row_filter_Inr:
  assumes "row_filter df = Inr vs"
  shows "vs = map (project required) (filter valid_row (rows df))"
proof -
  let ?df1 = "filter (\<lambda>r. str_contains (cell_of r ''payload'')) (rows df)"
  let ?df2 = "filter (\<lambda>r. \<forall>c \<in> set required. \<not> is_NaN (cell_of r c))
                (map (project required) ?df1)"
  let ?Q = "\<lambda>r. isinstance_num (cell_of r ''rx lat'') \<and> isinstance_num (cell_of r ''rx long'')
                \<and> between (cell_of r ''rx lat'') (-90) 90
                \<and> between (cell_of r ''rx long'') (-180) 180"
  from assms have "vs = filter ?Q ?df2"
    by (simp add: row_filter_def Let_def split: if_splits)
  also have "\<dots> = map (project required) (filter valid_row (rows df))"
    by (auto simp add: filter_map comp_def valid_row_project between_not_Str
        intro!: arg_cong [where f = "map (project required)"] filter_cong)
  finally show ?thesis .
qed

lemma row_filter_TypeError:
  assumes "''payload'' \<in> set (columns df)" and "set required \<subseteq> set (columns df)"
    and "r \<in> set (rows df)" and "str_contains (cell_of r ''payload'')"
    and "\<forall>c \<in> set required. \<not> is_NaN (cell_of r c)"
    and "is_Str (cell_of r ''rx lat'') \<or> is_Str (cell_of r ''rx long'')"
  shows "row_filter df = Inl TypeError"
proof -
  let ?df1 = "filter (\<lambda>r. str_contains (cell_of r ''payload'')) (rows df)"
  let ?df2 = "filter (\<lambda>r. \<forall>c \<in> set required. \<not> is_NaN (cell_of r c))
                (map (project required) ?df1)"
  from assms(4) have "is_Str (cell_of r ''payload'')"
    by (cases "cell_of r ''payload''") simp_all
  with assms(3) have str: "\<not> (\<forall>r \<in> set (rows df). \<not> is_Str (cell_of r ''payload''))"
    by blast
  from assms(3,4,5) have "project required r \<in> set ?df2"
    by (simp add: cell_of_project)
  moreover from assms(6) have "is_Str (cell_of (project required r) ''rx lat'')
      \<or> is_Str (cell_of (project required r) ''rx long'')"
    by (simp add: cell_of_project in_required)
  ultimately have "\<exists>r \<in> set ?df2. is_Str (cell_of r ''rx lat'') \<or> is_Str (cell_of r ''rx long'')"
    by blast
  with assms(1,2) str show ?thesis
    by (simp add: row_filter_def Let_def)
qed

lemma add_markers_all2:
  "add_markers S csv_file vs = Inr ms \<Longrightarrow>
     list_all2 (\<lambda>r m. circle_marker S csv_file r = Inr m) vs ms"
  by (induction vs arbitrary: ms) (auto split: sum.splits)



lemma create_point_layer_Some:
  assumes "create_point_layer S fs csv_file = (out, Inr (Some L))"
  shows "\<exists>df vs. fs csv_file = Inr df \<and> row_filter df = Inr vs \<and> vs \<noteq> []
      \<and> add_markers S csv_file vs = Inr (markers L) \<and> layer_name L = basename csv_file \<and> out = []"
  using assms by (auto simp add: create_point_layer_def split: sum.splits if_splits)

lemma popup_info_split:
  "popup_info S csv_file r = basename csv_file @ ''<br>SNR: '' @ cell_str S (cell_of r ''rx snr'')
      @ ''<br>Elevation: '' @ cell_str S (cell_of r ''rx elevation'')
      @ ''<br>Latitude: '' @ cell_str S (cell_of r ''rx lat'')
      @ ''<br>Longitude: '' @ cell_str S (cell_of r ''rx long'')"
  by (simp add: popup_info_def)

lemma sublist_step: "sublist xs zs \<Longrightarrow> sublist xs (ys @ zs)"
  by (metis append.assoc sublist_def)

lemma sublist_here: "sublist xs (xs @ zs)" "sublist xs xs"
  by simp_all

lemma popup_info_sublists:
  "sublist (basename csv_file) (popup_info S csv_file r)"
  "sublist (cell_str S (cell_of r ''rx snr'')) (popup_info S csv_file r)"
  "sublist (cell_str S (cell_of r ''rx elevation'')) (popup_info S csv_file r)"
  "sublist (cell_str S (cell_of r ''rx lat'')) (popup_info S csv_file r)"
  "sublist (cell_str S (cell_of r ''rx long'')) (popup_info S csv_file r)"
  unfolding popup_info_split
  by (intro sublist_here sublist_step)+

lemma popup_info_project:
  "popup_info S csv_file (project required r) = popup_info S csv_file r"
  by (simp add: popup_info_def cell_of_project in_required)

lemma circle_marker_valid:
  assumes "circle_marker S csv_file (project required r) = Inr m" and "valid_row r"
  shows "location m = (cell_of r ''rx lat'', cell_of r ''rx long'')
       \<and> (\<exists>x. cell_of r ''rx snr'' = Num x \<and> color m = map_color x \<and> fill_color m = map_color x)
       \<and> popup m = popup_info S csv_file r"
proof -
  from assms(2) have "\<not> is_NaN (cell_of r ''rx snr'')"
    by (simp add: valid_row_def in_required)
  moreover from assms(1) obtain c where "row_color (cell_of r ''rx snr'') = Inr c"
    by (auto simp add: circle_marker_def cell_of_project in_required split: sum.splits)
  ultimately obtain x where x: "cell_of r ''rx snr'' = Num x"
    by (cases "cell_of r ''rx snr''") auto
  with assms(1) show ?thesis
    by (auto simp add: circle_marker_def cell_of_project in_required popup_info_project)
qed

lemma ex_log1_point_layer:
  "create_point_layer ex_S ex_fs ''log1.csv'' =
     ([], Inr (Some \<lparr>layer_name = ''log1.csv'',
                       markers = [\<lparr>location = (Num 45, Num (-122)), radius = 7,
                                   color = ''#82c100'', fill = True, fill_color = ''#82c100'',
                                   fill_opacity = 7 / 10,
                                   popup = ''log1.csv<br>SNR: 3.5<br>Elevation: 120<br>Latitude: 45.0<br>Longitude: -122.0''\<rparr>]\<rparr>))"
  by code_simp



text \<open>
  C8. When a point layer is produced for a source, the source loaded, the layer is named by
  the base name of the path, and its markers are, in number and in order, the valid rows
  of the source in file order: marker \<open>i\<close> sits at the latitude and longitude of the
  \<open>i\<close>-th valid row, is coloured by \<open>map_color\<close> of its SNR, and its popup text
  contains the base name of the path and the texts of the row's SNR, elevation, latitude
  and longitude.
\<close>

theorem point_layer_markers:
  assumes "create_point_layer S fs csv_file = (out, Inr (Some L))"
  shows "\<exists>df. fs csv_file = Inr df \<and> layer_name L = basename csv_file
     \<and> length (markers L) = length (filter valid_row (rows df))
     \<and> (\<forall>i < length (markers L).
          let r = filter valid_row (rows df) ! i; m = markers L ! i in
            location m = (cell_of r ''rx lat'', cell_of r ''rx long'')
          \<and> (\<exists>x. cell_of r ''rx snr'' = Num x \<and> color m = map_color x \<and> fill_color m = map_color x)
          \<and> sublist (basename csv_file) (popup m)
          \<and> sublist (cell_str S (cell_of r ''rx snr'')) (popup m)
          \<and> sublist (cell_str S (cell_of r ''rx elevation'')) (popup m)
          \<and> sublist (cell_str S (cell_of r ''rx lat'')) (popup m)
          \<and> sublist (cell_str S (cell_of r ''rx long'')) (popup m))"
proof -
  from create_point_layer_Some [OF assms] obtain df vs where
    df: "fs csv_file = Inr df" and vs: "row_filter df = Inr vs"
    and ms: "add_markers S csv_file vs = Inr (markers L)"
    and name: "layer_name L = basename csv_file"
    by blast
  let ?vr = "filter valid_row (rows df)"
  from row_filter_Inr [OF vs] have vs_eq: "vs = map (project required) ?vr" .
  from add_markers_all2 [OF ms]
  have all2: "list_all2 (\<lambda>r m. circle_marker S csv_file r = Inr m) vs (markers L)" .
  then have len: "length (markers L) = length ?vr"
    by (simp add: vs_eq list_all2_lengthD [symmetric])
  have each: "location (markers L ! i) = (cell_of (?vr ! i) ''rx lat'', cell_of (?vr ! i) ''rx long'')
          \<and> (\<exists>x. cell_of (?vr ! i) ''rx snr'' = Num x \<and> color (markers L ! i) = map_color x
                 \<and> fill_color (markers L ! i) = map_color x)
          \<and> sublist (basename csv_file) (popup (markers L ! i))
          \<and> sublist (cell_str S (cell_of (?vr ! i) ''rx snr'')) (popup (markers L ! i))
          \<and> sublist (cell_str S (cell_of (?vr ! i) ''rx elevation'')) (popup (markers L ! i))
          \<and> sublist (cell_str S (cell_of (?vr ! i) ''rx lat'')) (popup (markers L ! i))
          \<and> sublist (cell_str S (cell_of (?vr ! i) ''rx long'')) (popup (markers L ! i))"
    if i: "i < length (markers L)" for i
  proof -
    from i len have i': "i < length ?vr" by simp
    have "?vr ! i \<in> set ?vr" by (rule nth_mem [OF i'])
    then have valid: "valid_row (?vr ! i)" by simp
    from all2 i have "circle_marker S csv_file (vs ! i) = Inr (markers L ! i)"
      by (rule list_all2_nthD2)
    with i' have "circle_marker S csv_file (project required (?vr ! i)) = Inr (markers L ! i)"
      by (simp add: vs_eq)
    from circle_marker_valid [OF this valid]
    have loc: "location (markers L ! i) = (cell_of (?vr ! i) ''rx lat'', cell_of (?vr ! i) ''rx long'')"
      and col: "\<exists>x. cell_of (?vr ! i) ''rx snr'' = Num x \<and> color (markers L ! i) = map_color x
                 \<and> fill_color (markers L ! i) = map_color x"
      and pop: "popup (markers L ! i) = popup_info S csv_file (?vr ! i)"
      by blast+
    from loc col show ?thesis
      unfolding pop using popup_info_sublists [where csv_file = csv_file and S = S and r = "?vr ! i"] by blast
  qed
  have "\<forall>i < length (markers L).
          let r = ?vr ! i; m = markers L ! i in
            location m = (cell_of r ''rx lat'', cell_of r ''rx long'')
          \<and> (\<exists>x. cell_of r ''rx snr'' = Num x \<and> color m = map_color x \<and> fill_color m = map_color x)
          \<and> sublist (basename csv_file) (popup m)
          \<and> sublist (cell_str S (cell_of r ''rx snr'')) (popup m)
          \<and> sublist (cell_str S (cell_of r ''rx elevation'')) (popup m)
          \<and> sublist (cell_str S (cell_of r ''rx lat'')) (popup m)
          \<and> sublist (cell_str S (cell_of r ''rx long'')) (popup m)"
    unfolding Let_def using each by blast
  with df name len show ?thesis by blast
qed

theorem point_layer_markers_witness:
  "\<exists>L. create_point_layer ex_S ex_fs ''log1.csv'' = ([], Inr (Some L))
      \<and> layer_name L = ''log1.csv'' \<and> length (markers L) = 1
      \<and> location (markers L ! 0) = (Num 45, Num (-122))
      \<and> sublist ''log1.csv'' (popup (markers L ! 0))
      \<and> sublist ''3.5'' (popup (markers L ! 0))
      \<and> sublist ''120'' (popup (markers L ! 0))
      \<and> sublist ''45.0'' (popup (markers L ! 0))
      \<and> sublist ''-122.0'' (popup (markers L ! 0))"
proof -
  let ?r = "ex_row (Str ''seq 17'') (Num 45) (Num (-122)) (Num (7 / 2))"
  obtain L where run: "create_point_layer ex_S ex_fs ''log1.csv'' = ([], Inr (Some L))"
    using ex_log1_point_layer by blast
  have fs: "ex_fs ''log1.csv'' = Inr ex_log1" by code_simp
  have vr: "filter valid_row (rows ex_log1) = [?r]" by code_simp
  have b: "basename ''log1.csv'' = ''log1.csv''" by code_simp
  have c: "cell_str ex_S (cell_of ?r ''rx snr'') = ''3.5''"
    "cell_str ex_S (cell_of ?r ''rx elevation'') = ''120''"
    "cell_str ex_S (cell_of ?r ''rx lat'') = ''45.0''"
    "cell_str ex_S (cell_of ?r ''rx long'') = ''-122.0''"
    "cell_of ?r ''rx lat'' = Num 45" "cell_of ?r ''rx long'' = Num (-122)"
    "cell_str ex_S (Num 45) = ''45.0''" "cell_str ex_S (Num (-122)) = ''-122.0''"
    by code_simp+
  from point_layer_markers [OF run] obtain df where df: "ex_fs ''log1.csv'' = Inr df"
    and name: "layer_name L = basename ''log1.csv''"
    and len: "length (markers L) = length (filter valid_row (rows df))"
    and each: "\<forall>i < length (markers L).
          let r = filter valid_row (rows df) ! i; m = markers L ! i in
            location m = (cell_of r ''rx lat'', cell_of r ''rx long'')
          \<and> (\<exists>x. cell_of r ''rx snr'' = Num x \<and> color m = map_color x \<and> fill_color m = map_color x)
          \<and> sublist (basename ''log1.csv'') (popup m)
          \<and> sublist (cell_str ex_S (cell_of r ''rx snr'')) (popup m)
          \<and> sublist (cell_str ex_S (cell_of r ''rx elevation'')) (popup m)
          \<and> sublist (cell_str ex_S (cell_of r ''rx lat'')) (popup m)
          \<and> sublist (cell_str ex_S (cell_of r ''rx long'')) (popup m)"
    by blast
  from df fs have df_eq: "df = ex_log1" by simp
  from len have len1: "length (markers L) = 1" by (simp add: df_eq vr)
  then have "0 < length (markers L)" by simp
  with each have "let r = filter valid_row (rows df) ! 0; m = markers L ! 0 in
            location m = (cell_of r ''rx lat'', cell_of r ''rx long'')
          \<and> (\<exists>x. cell_of r ''rx snr'' = Num x \<and> color m = map_color x \<and> fill_color m = map_color x)
          \<and> sublist (basename ''log1.csv'') (popup m)
          \<and> sublist (cell_str ex_S (cell_of r ''rx snr'')) (popup m)
          \<and> sublist (cell_str ex_S (cell_of r ''rx elevation'')) (popup m)
          \<and> sublist (cell_str ex_S (cell_of r ''rx lat'')) (popup m)
          \<and> sublist (cell_str ex_S (cell_of r ''rx long'')) (popup m)"
    by blast
  then have "location (markers L ! 0) = (Num 45, Num (-122))
      \<and> sublist ''log1.csv'' (popup (markers L ! 0))
      \<and> sublist ''3.5'' (popup (markers L ! 0))
      \<and> sublist ''120'' (popup (markers L ! 0))
      \<and> sublist ''45.0'' (popup (markers L ! 0))
      \<and> sublist ''-122.0'' (popup (markers L ! 0))"
    unfolding Let_def df_eq vr nth_Cons_0 b c by blast
  with run name len1 b show ?thesis by auto
qed

section \<open>The run\<close>

lemma read_all_Inr: "read_all fs csv_files = Inr dfs \<Longrightarrow> map fs csv_files = map Inr dfs"
  by (induction csv_files arbitrary: dfs) (auto split: sum.splits)

lemma read_all_fail:
  "f \<in> set csv_files \<Longrightarrow> fs f = Inl e \<Longrightarrow> \<exists>e'. read_all fs csv_files = Inl (ReadError e')"
  by (induction csv_files) (auto split: sum.splits)

lemma create_map_with_layers_Inr:
  assumes "create_map_with_layers S fs csv_files output_file = (out, Inr m)"
  shows "\<exists>first rest initial_df lats longs lat_mean long_mean df_list merged_df.
      csv_files = first # rest \<and> fs first = Inr initial_df
    \<and> get_column initial_df ''rx lat'' = Inr lats \<and> series_mean lats = Inr lat_mean
    \<and> get_column initial_df ''rx long'' = Inr longs \<and> series_mean longs = Inr long_mean
    \<and> read_all fs csv_files = Inr df_list \<and> pd_concat df_list = Inr merged_df
    \<and> heat_data merged_df = Inr (heat m)
    \<and> csv_layers S fs csv_files = (out, Inr (point_layers m))
    \<and> map_location m = (lat_mean, long_mean) \<and> saved_as m = output_file"
  using assms unfolding create_map_with_layers_def
  by (auto split: list.splits sum.splits prod.splits)

lemma create_map_with_layers_read_fail:
  assumes "read_all fs csv_files = Inl e"
  shows "\<exists>e'. create_map_with_layers S fs csv_files output_file = ([], Inl e')"
  using assms unfolding create_map_with_layers_def
  by (auto split: list.splits sum.splits prod.splits)

lemma csv_layers_fail:
  "f \<in> set csv_files \<Longrightarrow> snd (create_point_layer S fs f) = Inl e \<Longrightarrow>
     \<exists>out e'. csv_layers S fs csv_files = (out, Inl e')"
proof (induction csv_files)
  case Nil
  then show ?case by simp
next
  case (Cons a rest)
  show ?case
  proof (cases "snd (create_point_layer S fs a)")
    case (Inl e1)
    then show ?thesis by (cases "create_point_layer S fs a") auto
  next
    case (Inr lay)
    with Cons.prems have "f \<in> set rest" by auto
    with Cons obtain out e' where "csv_layers S fs rest = (out, Inl e')" by blast
    with Inr show ?thesis by (cases "create_point_layer S fs a") auto
  qed
qed

lemma run_aborts_when_layer_fails:
  assumes "f \<in> set csv_files" and "snd (create_point_layer S fs f) = Inl e"
  shows "\<exists>out e'. create_map_with_layers S fs csv_files output_file = (out, Inl e')"
proof (cases "create_map_with_layers S fs csv_files output_file")
  case (Pair out r)
  show ?thesis
  proof (cases r)
    case (Inl e')
    with Pair show ?thesis by blast
  next
    case (Inr m)
    with Pair create_map_with_layers_Inr
    have "csv_layers S fs csv_files = (out, Inr (point_layers m))" by blast
    with csv_layers_fail [where fs = fs and f = f and S = S, OF assms] show ?thesis by auto
  qed
qed

lemma heat_data_concat:
  assumes "pd_concat dfs = Inr merged_df" and "heat_data merged_df = Inr h"
  shows "h = concat (map frame_heat dfs)"
proof -
  from assms(1) have r: "rows merged_df = concat (map (\<lambda>df. map (restrict (columns df)) (rows df)) dfs)"
    by (auto simp add: pd_concat_def split: if_splits)
  have fh: "frame_heat = (\<lambda>df. map (\<lambda>r. heat_row (restrict (columns df) r)) (rows df))"
    by (rule ext) (simp add: frame_heat_def)
  have c: "map heat_row (rows merged_df) = concat (map frame_heat dfs)"
    unfolding r fh by (simp add: map_concat comp_def)
  show ?thesis
  proof (cases "rows merged_df = []")
    case True
    with assms(2) have "h = []" by (simp add: heat_data_def)
    with c True show ?thesis by simp
  next
    case False
    with assms(2) have "h = map heat_row (rows merged_df)"
      by (simp add: heat_data_def split: if_splits)
    with c show ?thesis by simp
  qed
qed

lemma length_concat_frame_heat:
  "length (concat (map frame_heat dfs)) = sum_list (map (\<lambda>df. length (rows df)) dfs)"
  by (simp add: length_concat frame_heat_def comp_def)

lemma ex_run_log1:
  "create_map_with_layers ex_S ex_fs [''log1.csv''] ''rangetest-map.html'' =
     ([], Inr \<lparr>map_location = (Num 46, Num (-121)),
               heat = [[Num 45, Num (-122), Num (7 / 2)], [Num 47, Num (-120), Num 1]],
               point_layers =
                 [\<lparr>layer_name = ''log1.csv'',
                    markers = [\<lparr>location = (Num 45, Num (-122)), radius = 7,
                                color = ''#82c100'', fill = True, fill_color = ''#82c100'',
                                fill_opacity = 7 / 10,
                                popup = ''log1.csv<br>SNR: 3.5<br>Elevation: 120<br>Latitude: 45.0<br>Longitude: -122.0''\<rparr>]\<rparr>],
               saved_as = ''rangetest-map.html''\<rparr>)"
  by code_simp

lemma ex_filter_log1:
  "row_filter ex_log1 =
     Inr [project required (ex_row (Str ''seq 17'') (Num 45) (Num (-122)) (Num (7 / 2)))]"
  by code_simp

lemma row_filter_no_exit: "row_filter df = Inl e \<Longrightarrow> \<not> is_exit e"
  by (auto simp add: row_filter_def Let_def split: if_splits)

lemma add_markers_no_exit: "add_markers S csv_file vs = Inl e \<Longrightarrow> \<not> is_exit e"
proof (induction vs)
  case Nil
  then show ?case by simp
next
  case (Cons r rs)
  show ?case
  proof (cases "circle_marker S csv_file r")
    case (Inl e1)
    then have "e1 = TypeError"
      by (cases "cell_of r ''rx snr''") (auto simp add: circle_marker_def)
    with Inl Cons.prems show ?thesis by auto
  next
    case (Inr m)
    with Cons show ?thesis by (auto split: sum.splits)
  qed
qed

lemma create_point_layer_no_exit:
  "create_point_layer S fs csv_file = (out, Inl e) \<Longrightarrow> \<not> is_exit e"
  by (auto simp add: create_point_layer_def row_filter_no_exit add_markers_no_exit
      split: sum.splits if_splits)

lemma csv_layers_no_exit: "csv_layers S fs csv_files = (out, Inl e) \<Longrightarrow> \<not> is_exit e"
proof (induction csv_files arbitrary: out)
  case Nil
  then show ?case by simp
next
  case (Cons a rest)
  then show ?case
    by (auto simp add: create_point_layer_no_exit split: prod.splits sum.splits)
qed

lemma read_all_no_exit: "read_all fs csv_files = Inl e \<Longrightarrow> \<not> is_exit e"
  by (induction csv_files) (auto split: sum.splits)

lemma get_column_no_exit: "get_column df c = Inl e \<Longrightarrow> \<not> is_exit e"
  by (auto simp add: get_column_def split: if_splits)

lemma series_mean_no_exit: "series_mean xs = Inl e \<Longrightarrow> \<not> is_exit e"
  by (auto simp add: series_mean_def split: if_splits)

lemma pd_concat_no_exit: "pd_concat dfs = Inl e \<Longrightarrow> \<not> is_exit e"
  by (auto simp add: pd_concat_def split: if_splits)

lemma heat_data_no_exit: "heat_data df = Inl e \<Longrightarrow> \<not> is_exit e"
  by (auto simp add: heat_data_def split: if_splits)

lemma create_map_with_layers_no_exit:
  assumes "create_map_with_layers S fs csv_files output_file = (out, Inl e)"
  shows "\<not> is_exit e"
  using assms unfolding create_map_with_layers_def
  by (auto simp del: csv_layers.simps read_all.simps
      dest: get_column_no_exit series_mean_no_exit pd_concat_no_exit heat_data_no_exit
        read_all_no_exit csv_layers_no_exit
      split: list.splits sum.splits prod.splits)

text \<open>
  C2, as amended. The claim says that the heat entries are exactly the valid samples of
  the sources. The program builds them from the merged frames as read (lines 71 to 78),
  with no filtering at all; \<open>heat_not_only_valid_samples\<close> below is a run with one valid
  sample and two heat entries. What holds: in every run that produces the map, every
  source loaded, and the heat entries are, in source order and within a source in row
  order, the latitude, longitude and unnormalised SNR of every row of every source, valid
  or not; so their number is the sum of the row counts of the sources.
\<close>

theorem heat_data_all_raw_rows:
  assumes "create_map_with_layers S fs csv_files output_file = (out, Inr m)"
  shows "\<exists>dfs. map fs csv_files = map Inr dfs
           \<and> heat m = concat (map frame_heat dfs)
           \<and> length (heat m) = sum_list (map (\<lambda>df. length (rows df)) dfs)"
proof -
  from create_map_with_layers_Inr [OF assms] obtain df_list merged_df where
    "read_all fs csv_files = Inr df_list" "pd_concat df_list = Inr merged_df"
    "heat_data merged_df = Inr (heat m)"
    by blast
  then have "map fs csv_files = map Inr df_list" "heat m = concat (map frame_heat df_list)"
    by (simp_all add: read_all_Inr heat_data_concat)
  then show ?thesis using length_concat_frame_heat by metis
qed

theorem heat_data_all_raw_rows_witness:
  "\<exists>dfs. map ex_fs [''log1.csv''] = map Inr dfs
     \<and> [[Num 45, Num (-122), Num (7 / 2)], [Num 47, Num (-120), Num 1]]
         = concat (map frame_heat dfs)
     \<and> length [[Num 45, Num (-122), Num (7 / 2)], [Num 47, Num (-120), Num 1]]
         = sum_list (map (\<lambda>df. length (rows df)) dfs)"
  using heat_data_all_raw_rows [OF ex_run_log1] by simp

theorem heat_not_only_valid_samples:
  "ex_fs ''log1.csv'' = Inr ex_log1
   \<and> (case row_filter ex_log1 of Inl e \<Rightarrow> None | Inr vs \<Rightarrow> Some (length vs)) = Some 1
   \<and> (case snd (create_map_with_layers ex_S ex_fs [''log1.csv''] ''rangetest-map.html'') of
         Inl e \<Rightarrow> None | Inr m \<Rightarrow> Some (heat m))
       = Some [[Num 45, Num (-122), Num (7 / 2)], [Num 47, Num (-120), Num 1]]"
proof -
  have "ex_fs ''log1.csv'' = Inr ex_log1" by code_simp
  then show ?thesis by (simp add: ex_run_log1 ex_filter_log1)
qed

text \<open>
  C3, as amended. The claim says that a source that cannot be read is skipped and the
  run goes on. The program has no exception handling: \<open>unreadable_source_not_skipped\<close>
  below is the run of the specification's example, which ends with the exception of the
  unreadable file. What holds: when any source of the list cannot be opened or parsed,
  \<^verbatim>\<open>create_map_with_layers\<close> and the script end with an exception before any point
  layer is built and before anything is printed; no map is produced.
\<close>

theorem unreadable_source_aborts_run:
  assumes "f \<in> set csv_files" and "fs f = Inl e"
  shows "(\<exists>e'. create_map_with_layers S fs csv_files output_file = ([], Inl e'))
       \<and> (\<exists>e'. main S fs csv_files = ([], Inl e'))"
proof -
  from read_all_fail [where fs = fs and f = f, OF assms] obtain e1 where "read_all fs csv_files = Inl (ReadError e1)"
    by blast
  then have run: "\<exists>e'. create_map_with_layers S fs csv_files output_file = ([], Inl e')"
    for output_file
    by (rule create_map_with_layers_read_fail)
  from assms(1) have "csv_files \<noteq> []" by auto
  with run [of "''rangetest-map.html''"] have "\<exists>e'. main S fs csv_files = ([], Inl e')"
    by (auto simp add: main_def)
  with run show ?thesis by blast
qed

theorem unreadable_source_aborts_run_witness:
  "(\<exists>e'. create_map_with_layers ex_S ex_fs [''log1.csv'', ''missing.csv'', ''empty.csv'']
            ''rangetest-map.html'' = ([], Inl e'))
   \<and> (\<exists>e'. main ex_S ex_fs [''log1.csv'', ''missing.csv'', ''empty.csv''] = ([], Inl e'))"
proof -
  have 1: "''missing.csv'' \<in> set [''log1.csv'', ''missing.csv'', ''empty.csv'']" by simp
  have 2: "ex_fs ''missing.csv'' = Inl FileNotFoundError" by code_simp
  show ?thesis
    by (rule unreadable_source_aborts_run [where fs = ex_fs and f = "''missing.csv''", OF 1 2])
qed

theorem unreadable_source_not_skipped:
  "ex_fs ''log1.csv'' = Inr ex_log1 \<and> ex_fs ''missing.csv'' = Inl FileNotFoundError
   \<and> ex_fs ''empty.csv'' = Inr ex_empty
   \<and> main ex_S ex_fs [''log1.csv'', ''missing.csv'', ''empty.csv'']
       = ([], Inl (ReadError FileNotFoundError))"
  by code_simp

text \<open>
  C4, as amended. The claim says that the centre of the map is the mean position of the
  first source's valid samples. The program takes the means over the first file as read
  (lines 66 to 67); \<open>center_not_mean_of_valid_samples\<close> below is a run where the two
  differ. What holds: in every run that produces the map, the source list is not empty,
  its first source loaded, and the centre is the pair of the mean of all numbers in the
  latitude column and the mean of all numbers in the longitude column of that source,
  rows the filter would drop included; no other source enters.
\<close>

theorem center_is_raw_mean_of_first_source:
  assumes "create_map_with_layers S fs csv_files output_file = (out, Inr m)"
  shows "\<exists>first rest df. csv_files = first # rest \<and> fs first = Inr df
      \<and> map_location m =
           (mean_skipna (map (\<lambda>r. cell_of r ''rx lat'') (rows df)),
            mean_skipna (map (\<lambda>r. cell_of r ''rx long'') (rows df)))"
proof -
  from create_map_with_layers_Inr [OF assms] obtain first rest df lats longs lat_mean long_mean
    where h: "csv_files = first # rest" "fs first = Inr df"
      "get_column df ''rx lat'' = Inr lats" "series_mean lats = Inr lat_mean"
      "get_column df ''rx long'' = Inr longs" "series_mean longs = Inr long_mean"
      "map_location m = (lat_mean, long_mean)"
    by blast
  from h(3,5) have "lats = map (\<lambda>r. cell_of r ''rx lat'') (rows df)"
      "longs = map (\<lambda>r. cell_of r ''rx long'') (rows df)"
    by (auto simp add: get_column_def split: if_splits)
  moreover from h(4,6) have "lat_mean = mean_skipna lats" "long_mean = mean_skipna longs"
    by (auto simp add: series_mean_def mean_skipna_def split: if_splits)
  ultimately show ?thesis using h(1,2,7) by blast
qed

theorem center_is_raw_mean_of_first_source_witness:
  "\<exists>first rest df. [''log1.csv''] = first # rest \<and> ex_fs first = Inr df
      \<and> (Num 46, Num (-121)) =
           (mean_skipna (map (\<lambda>r. cell_of r ''rx lat'') (rows df)),
            mean_skipna (map (\<lambda>r. cell_of r ''rx long'') (rows df)))"
  using center_is_raw_mean_of_first_source [OF ex_run_log1] by simp

theorem center_not_mean_of_valid_samples:
  "ex_fs ''log1.csv'' = Inr ex_log1
   \<and> (case snd (create_map_with_layers ex_S ex_fs [''log1.csv''] ''rangetest-map.html'') of
         Inl e \<Rightarrow> None | Inr m \<Rightarrow> Some (map_location m)) = Some (Num 46, Num (-121))
   \<and> (case row_filter ex_log1 of Inl e \<Rightarrow> None
       | Inr vs \<Rightarrow> Some (series_mean (map (\<lambda>r. cell_of r ''rx lat'') vs),
                         series_mean (map (\<lambda>r. cell_of r ''rx long'') vs)))
       = Some (Inr (Num 45), Inr (Num (-122)))"
proof -
  have "ex_fs ''log1.csv'' = Inr ex_log1" by code_simp
  moreover have "(case row_filter ex_log1 of Inl e \<Rightarrow> None
       | Inr vs \<Rightarrow> Some (series_mean (map (\<lambda>r. cell_of r ''rx lat'') vs),
                         series_mean (map (\<lambda>r. cell_of r ''rx long'') vs)))
       = Some (Inr (Num 45), Inr (Num (-122)))"
    by code_simp
  ultimately show ?thesis by (simp add: ex_run_log1)
qed

text \<open>
  C9. With no source the script prints its diagnostic and exits with status 1; the result
  is an exception, so no map is written. With at least one source the script goes on to
  \<^verbatim>\<open>create_map_with_layers\<close> and its outcome is the outcome of that call, which is never
  an exit: the empty list is the only source count that ends the script at its start.
\<close>

theorem main_no_sources:
  "main S fs [] = ([''No CSV files found in the directory. Exiting.''], Inl (SystemExit 1))
   \<and> (csv_files \<noteq> [] \<longrightarrow>
        snd (main S fs csv_files)
          = snd (create_map_with_layers S fs csv_files ''rangetest-map.html'')
        \<and> (\<forall>n. snd (main S fs csv_files) \<noteq> Inl (SystemExit n)))"
proof -
  have 1: "main S fs [] =
      ([''No CSV files found in the directory. Exiting.''], Inl (SystemExit 1))"
    by (simp add: main_def)
  have 2: "snd (main S fs csv_files)
      = snd (create_map_with_layers S fs csv_files ''rangetest-map.html'')"
    if "csv_files \<noteq> []"
    using that by (auto simp add: main_def split: prod.splits sum.splits)
  have 3: "snd (main S fs csv_files) \<noteq> Inl (SystemExit n)" if ne: "csv_files \<noteq> []" for n
  proof
    assume "snd (main S fs csv_files) = Inl (SystemExit n)"
    with 2 [OF ne] obtain out where
      "create_map_with_layers S fs csv_files ''rangetest-map.html'' = (out, Inl (SystemExit n))"
      by (cases "create_map_with_layers S fs csv_files ''rangetest-map.html''") auto
    from create_map_with_layers_no_exit [OF this] show False by simp
  qed
  from 1 2 3 show ?thesis by blast
qed

theorem main_no_sources_witness:
  "main ex_S ex_fs [] = ([''No CSV files found in the directory. Exiting.''], Inl (SystemExit 1))
   \<and> snd (main ex_S ex_fs [''log1.csv''])
        = snd (create_map_with_layers ex_S ex_fs [''log1.csv''] ''rangetest-map.html'')
   \<and> snd (main ex_S ex_fs [''log1.csv'']) \<noteq> Inl (SystemExit 1)"
proof -
  have "[''log1.csv''] \<noteq> []" by simp
  with main_no_sources [of ex_S ex_fs "[''log1.csv'']"] show ?thesis by blast
qed

text \<open>
  C10. For a source that loads but has no payload column, line 16 raises KeyError:
  the filter and \<^verbatim>\<open>create_point_layer\<close> end with that exception, nothing is printed and
  no row is dropped silently. Nothing catches it, so every run whose list holds that
  source ends with an exception instead of a map, in \<^verbatim>\<open>create_map_with_layers\<close> and in
  the script.
\<close>

theorem missing_payload_column_raises:
  assumes "fs csv_file = Inr df" and "''payload'' \<notin> set (columns df)"
  shows "row_filter df = Inl KeyError
       \<and> create_point_layer S fs csv_file = ([], Inl KeyError)
       \<and> (csv_file \<in> set csv_files \<longrightarrow>
            (\<exists>out e. create_map_with_layers S fs csv_files output_file = (out, Inl e))
          \<and> (\<exists>out e. main S fs csv_files = (out, Inl e)))"
proof -
  from assms(2) have rf: "row_filter df = Inl KeyError"
    by (simp add: row_filter_def)
  with assms(1) have cpl: "create_point_layer S fs csv_file = ([], Inl KeyError)"
    by (simp add: create_point_layer_def)
  then have "snd (create_point_layer S fs csv_file) = Inl KeyError" by simp
  from run_aborts_when_layer_fails [OF _ this]
  have run: "\<exists>out e. create_map_with_layers S fs csv_files output_file = (out, Inl e)"
    if "csv_file \<in> set csv_files" for output_file
    using that by blast
  have "\<exists>out e. main S fs csv_files = (out, Inl e)" if mem: "csv_file \<in> set csv_files"
  proof -
    from mem have "csv_files \<noteq> []" by auto
    with run [OF mem, of "''rangetest-map.html''"] show ?thesis
      by (auto simp add: main_def)
  qed
  with rf cpl run show ?thesis by blast
qed

theorem missing_payload_column_raises_witness:
  "row_filter ex_nopayload = Inl KeyError
   \<and> create_point_layer ex_S ex_fs ''nopayload.csv'' = ([], Inl KeyError)
   \<and> (\<exists>out e. create_map_with_layers ex_S ex_fs [''log1.csv'', ''nopayload.csv'']
                 ''rangetest-map.html'' = (out, Inl e))
   \<and> (\<exists>out e. main ex_S ex_fs [''log1.csv'', ''nopayload.csv''] = (out, Inl e))"
proof -
  have 1: "ex_fs ''nopayload.csv'' = Inr ex_nopayload" by code_simp
  have 2: "''payload'' \<notin> set (columns ex_nopayload)" by code_simp
  have 3: "''nopayload.csv'' \<in> set [''log1.csv'', ''nopayload.csv'']" by simp
  from missing_payload_column_raises [where fs = ex_fs and csv_file = "''nopayload.csv''" and S = ex_S
      and csv_files = "[''log1.csv'', ''nopayload.csv'']"
      and output_file = "''rangetest-map.html''", OF 1 2] 3
  show ?thesis by blast
qed

text \<open>
  C1. The statement of the claim: a record is kept exactly when its payload matches, the
  five fields are present and latitude and longitude are numbers in range, and a dropped
  record raises nothing. The program breaks the last part. A record that passes the
  payload test and has all five fields, but whose latitude or longitude is a text, is
  not dropped: lines 18 and 19 test the type of the coordinates, yet the range tests of
  lines 20 and 21 compare the same column with numbers and raise TypeError before the
  masks are combined. Nothing catches it: \<^verbatim>\<open>create_point_layer\<close> ends with the
  exception, and so does every run whose list holds the source. (When the filter raises
  nothing it keeps exactly the records of the acceptance rule: \<open>row_filter_Inr\<close> above.)
\<close>

theorem text_coordinate_raises:
  assumes "fs csv_file = Inr df"
    and "''payload'' \<in> set (columns df)" and "set required \<subseteq> set (columns df)"
    and "r \<in> set (rows df)" and "str_contains (cell_of r ''payload'')"
    and "\<forall>c \<in> set required. \<not> is_NaN (cell_of r c)"
    and "is_Str (cell_of r ''rx lat'') \<or> is_Str (cell_of r ''rx long'')"
  shows "row_filter df = Inl TypeError
       \<and> create_point_layer S fs csv_file = ([], Inl TypeError)
       \<and> (csv_file \<in> set csv_files \<longrightarrow>
            (\<exists>out e. create_map_with_layers S fs csv_files output_file = (out, Inl e)))"
proof -
  from assms(1) row_filter_TypeError [OF assms(2-7)]
  have cpl: "row_filter df = Inl TypeError"
    "create_point_layer S fs csv_file = ([], Inl TypeError)"
    by (simp_all add: create_point_layer_def)
  then have "snd (create_point_layer S fs csv_file) = Inl TypeError" by simp
  from run_aborts_when_layer_fails [OF _ this] cpl show ?thesis by blast
qed

theorem text_coordinate_raises_witness:
  "row_filter ex_text = Inl TypeError
   \<and> create_point_layer ex_S ex_fs ''text.csv'' = ([], Inl TypeError)
   \<and> (\<exists>out e. create_map_with_layers ex_S ex_fs [''log1.csv'', ''text.csv'']
                 ''rangetest-map.html'' = (out, Inl e))"
proof -
  let ?r = "ex_row (Str ''seq 1'') (Str ''unknown'') (Num (-122)) (Num 2)"
  have 1: "ex_fs ''text.csv'' = Inr ex_text" by code_simp
  have 2: "''payload'' \<in> set (columns ex_text)" by code_simp
  have 3: "set required \<subseteq> set (columns ex_text)" by code_simp
  have 4: "?r \<in> set (rows ex_text)" by code_simp
  have 5: "str_contains (cell_of ?r ''payload'')" by code_simp
  have 6: "\<forall>c \<in> set required. \<not> is_NaN (cell_of ?r c)" by code_simp
  have 7: "is_Str (cell_of ?r ''rx lat'') \<or> is_Str (cell_of ?r ''rx long'')" by code_simp
  have 8: "''text.csv'' \<in> set [''log1.csv'', ''text.csv'']" by simp
  from text_coordinate_raises [where fs = ex_fs and csv_file = "''text.csv''" and r = ?r
      and S = ex_S and csv_files = "[''log1.csv'', ''text.csv'']"
      and output_file = "''rangetest-map.html''", OF 1 2 3 4 5 6 7] 8
  show ?thesis by blast
qed

section \<open>The acceptance rule\<close>

lemma str_contains_iff: "str_contains c \<longleftrightarrow> (\<exists>s. c = Str s \<and> contains_seq s)"
  by (cases c) auto

lemma is_NaN_iff: "is_NaN c \<longleftrightarrow> c = NaN"
  by (cases c) auto

lemma valid_row_iff:
  "valid_row r \<longleftrightarrow>
     (\<exists>s pre ds post. cell_of r ''payload'' = Str s \<and> s = pre @ ''seq '' @ ds @ post
          \<and> ds \<noteq> [] \<and> (\<forall>d \<in> set ds. is_digit d))
     \<and> (\<forall>c \<in> set required. cell_of r c \<noteq> NaN)
     \<and> (\<exists>x. cell_of r ''rx lat'' = Num x \<and> -90 \<le> x \<and> x \<le> 90)
     \<and> (\<exists>y. cell_of r ''rx long'' = Num y \<and> -180 \<le> y \<and> y \<le> 180)"
  unfolding valid_row_def str_contains_iff is_NaN_iff between_Num contains_seq_iff
  by blast

text \<open>
  X1. Filter soundness when nothing is raised: the frame the filter returns is, in file
  order, the rows that satisfy the acceptance rule, cut down to the five required columns.
  A row satisfies the rule exactly when its payload is a text that holds \<^verbatim>\<open>seq\<close>, a blank
  and at least one digit, none of the five required fields is missing, its latitude is a
  number in \<open>[-90, 90]\<close> and its longitude is a number in \<open>[-180, 180]\<close>.
\<close>

theorem row_filter_sound:
  assumes "row_filter df = Inr vs"
  shows "vs = map (project required) (filter valid_row (rows df))
     \<and> (\<forall>r. valid_row r \<longleftrightarrow>
          (\<exists>s pre ds post. cell_of r ''payload'' = Str s \<and> s = pre @ ''seq '' @ ds @ post
              \<and> ds \<noteq> [] \<and> (\<forall>d \<in> set ds. is_digit d))
          \<and> (\<forall>c \<in> set required. cell_of r c \<noteq> NaN)
          \<and> (\<exists>x. cell_of r ''rx lat'' = Num x \<and> -90 \<le> x \<and> x \<le> 90)
          \<and> (\<exists>y. cell_of r ''rx long'' = Num y \<and> -180 \<le> y \<and> y \<le> 180))"
  using row_filter_Inr [OF assms] valid_row_iff by blast

theorem row_filter_sound_witness:
  "[project required (ex_row (Str ''seq 17'') (Num 45) (Num (-122)) (Num (7 / 2)))]
     = map (project required) (filter valid_row (rows ex_log1))
   \<and> valid_row (ex_row (Str ''seq 17'') (Num 45) (Num (-122)) (Num (7 / 2)))
   \<and> \<not> valid_row (ex_row (Str ''hello'') (Num 47) (Num (-120)) (Num 1))"
proof -
  have "valid_row (ex_row (Str ''seq 17'') (Num 45) (Num (-122)) (Num (7 / 2)))"
    "\<not> valid_row (ex_row (Str ''hello'') (Num 47) (Num (-120)) (Num 1))"
    by code_simp+
  with row_filter_sound [OF ex_filter_log1] show ?thesis by blast
qed

end
